theory Spec2Isabelle
  imports Main
begin

section \<open>The packaging manifest \<^verbatim>\<open>setup.py\<close> of patchclamp\<close>

text \<open>
  The repository consists of one file, \<^verbatim>\<open>setup.py\<close>:
  \<^verbatim>\<open>
  from setuptools import find_packages
  from setuptools import setup

  setup(name='patchclamp',
        version='0.1',
        author='Eamon Byrne',
        packages=find_packages(),
        install_requires=[
          'numpy',
          'pandas',
          'scipy',
          'pyabf',
          'glob',
          'seaborn',
          'matplotlib',
      ],
       )
  \<close>
  The properties of interest are properties of this text (which statements it holds, which
  keyword arguments the call carries) and of what running it does (which calls reach
  setuptools, with which values). The module is therefore kept as a syntax tree, in the
  node names of Python's own \<^verbatim>\<open>ast\<close> module, and run by a small interpreter whose
  only parameter is the world outside the file: the importable modules and the external
  callables.
\<close>

subsection \<open>Abstract syntax\<close>

datatype expr =
    Str string
  | Name string
  | ListE "expr list"
  | Attribute expr string
  | Call expr "expr list" "(string \<times> expr) list"

datatype stmt =
    ImportFrom string "string list"
  | Import string
  | Expr expr
  | Assign expr expr
  | Global "string list"
  | Raise expr
  | If expr "stmt list" "stmt list"
  | While expr "stmt list"
  | For expr expr "stmt list"
  | Try "stmt list" "stmt list"
  | FunctionDef string "string list" "stmt list"
  | AsyncFunctionDef string "string list" "stmt list"
  | ClassDef string "expr list" "stmt list"

subsection \<open>The module\<close>

definition setup_py :: "stmt list" where
  "setup_py =
    [ImportFrom ''setuptools'' [''find_packages''],
     ImportFrom ''setuptools'' [''setup''],
     Expr (Call (Name ''setup'') []
       [(''name'', Str ''patchclamp''),
        (''version'', Str ''0.1''),
        (''author'', Str ''Eamon Byrne''),
        (''packages'', Call (Name ''find_packages'') [] []),
        (''install_requires'',
           ListE [Str ''numpy'',
                  Str ''pandas'',
                  Str ''scipy'',
                  Str ''pyabf'',
                  Str ''glob'',
                  Str ''seaborn'',
                  Str ''matplotlib''])])]"

subsection \<open>Reading the tree\<close>

datatype stmt_kind =
    KImportFrom | KImport | KExpr | KAssign | KGlobal | KRaise | KIf | KWhile | KFor | KTry
  | KFunctionDef | KAsyncFunctionDef | KClassDef

fun kind_of :: "stmt \<Rightarrow> stmt_kind" where
  "kind_of (ImportFrom m ns) = KImportFrom"
| "kind_of (Import m) = KImport"
| "kind_of (Expr e) = KExpr"
| "kind_of (Assign t e) = KAssign"
| "kind_of (Global ns) = KGlobal"
| "kind_of (Raise e) = KRaise"
| "kind_of (If c a b) = KIf"
| "kind_of (While c b) = KWhile"
| "kind_of (For t e b) = KFor"
| "kind_of (Try b h) = KTry"
| "kind_of (FunctionDef n ps b) = KFunctionDef"
| "kind_of (AsyncFunctionDef n ps b) = KAsyncFunctionDef"
| "kind_of (ClassDef n bs b) = KClassDef"

text \<open>Every statement of a block, the nested ones included, in source order.\<close>

fun all_stmts :: "stmt \<Rightarrow> stmt list" where
  "all_stmts (If c a b) = If c a b # concat (map all_stmts a) @ concat (map all_stmts b)"
| "all_stmts (While c b) = While c b # concat (map all_stmts b)"
| "all_stmts (For t e b) = For t e b # concat (map all_stmts b)"
| "all_stmts (Try b h) = Try b h # concat (map all_stmts b) @ concat (map all_stmts h)"
| "all_stmts (FunctionDef n ps b) = FunctionDef n ps b # concat (map all_stmts b)"
| "all_stmts (AsyncFunctionDef n ps b) = AsyncFunctionDef n ps b # concat (map all_stmts b)"
| "all_stmts (ClassDef n bs b) = ClassDef n bs b # concat (map all_stmts b)"
| "all_stmts s = [s]"

definition module_stmts :: "stmt list \<Rightarrow> stmt list" where
  "module_stmts body = concat (map all_stmts body)"

text \<open>Every expression below an expression, itself included.\<close>

fun all_exprs :: "expr \<Rightarrow> expr list" where
  "all_exprs (Str s) = [Str s]"
| "all_exprs (Name x) = [Name x]"
| "all_exprs (ListE es) = ListE es # concat (map all_exprs es)"
| "all_exprs (Attribute e a) = Attribute e a # all_exprs e"
| "all_exprs (Call f args ks) =
     Call f args ks # all_exprs f @ concat (map all_exprs args) @ concat (map all_exprs (map snd ks))"

text \<open>The expressions a statement holds directly.\<close>

fun stmt_exprs :: "stmt \<Rightarrow> expr list" where
  "stmt_exprs (Expr e) = [e]"
| "stmt_exprs (Assign t e) = [t, e]"
| "stmt_exprs (Raise e) = [e]"
| "stmt_exprs (If c a b) = [c]"
| "stmt_exprs (While c b) = [c]"
| "stmt_exprs (For t e b) = [t, e]"
| "stmt_exprs (ClassDef n bs b) = bs"
| "stmt_exprs s = []"

definition module_exprs :: "stmt list \<Rightarrow> expr list" where
  "module_exprs body = concat (map all_exprs (concat (map stmt_exprs (module_stmts body))))"

fun is_Attribute :: "expr \<Rightarrow> bool" where
  "is_Attribute (Attribute e a) = True"
| "is_Attribute e = False"

fun is_Call :: "expr \<Rightarrow> bool" where
  "is_Call (Call f args ks) = True"
| "is_Call e = False"

fun callee :: "expr \<Rightarrow> expr option" where
  "callee (Call f args ks) = Some f"
| "callee e = None"

fun positional :: "expr \<Rightarrow> expr list" where
  "positional (Call f args ks) = args"
| "positional e = []"

fun keywords_of :: "expr \<Rightarrow> (string \<times> expr) list" where
  "keywords_of (Call f args ks) = ks"
| "keywords_of e = []"

text \<open>The top-level expression statements that call the name \<open>f\<close>.\<close>

fun calls_of :: "string \<Rightarrow> stmt list \<Rightarrow> expr list" where
  "calls_of f [] = []"
| "calls_of f (Expr e # ss) =
     (if callee e = Some (Name f) then e # calls_of f ss else calls_of f ss)"
| "calls_of f (s # ss) = calls_of f ss"

text \<open>The keyword arguments of the module's call of \<^verbatim>\<open>setup\<close>, when it is the only one.\<close>

definition setup_keywords :: "(string \<times> expr) list" where
  "setup_keywords = (case calls_of ''setup'' setup_py of [c] \<Rightarrow> keywords_of c | _ \<Rightarrow> [])"

definition setup_keyword :: "string \<Rightarrow> expr option" where
  "setup_keyword k = map_of setup_keywords k"

text \<open>A list display made of string literals only, read as the list of those strings.\<close>

fun str_of :: "expr \<Rightarrow> string option" where
  "str_of (Str s) = Some s"
| "str_of e = None"

fun strs_of :: "expr list \<Rightarrow> string list option" where
  "strs_of [] = Some []"
| "strs_of (e # es) =
     (case str_of e of None \<Rightarrow> None
      | Some s \<Rightarrow> (case strs_of es of None \<Rightarrow> None | Some ss \<Rightarrow> Some (s # ss)))"

fun str_list :: "expr \<Rightarrow> string list option" where
  "str_list (ListE es) = strs_of es"
| "str_list e = None"

definition install_requires :: "string list" where
  "install_requires =
     (case setup_keyword ''install_requires'' of
        None \<Rightarrow> []
      | Some e \<Rightarrow> (case str_list e of None \<Rightarrow> [] | Some ds \<Rightarrow> ds))"

subsection \<open>Running the module\<close>

text \<open>
  Values are \<^verbatim>\<open>None\<close>, strings, lists, and the callables that live outside the file,
  known by name.
  The world outside is a parameter: what each importable module exports, which names are
  builtins, and what an external callable returns (or raises) for given arguments.
\<close>

datatype val =
    VNone
  | VStr string
  | VList "val list"
  | VExt string

datatype error =
    ImportError string string
  | NameError string
  | AttributeError string
  | NotCallable
  | Raised string
  | Unsupported stmt_kind

type_synonym ext_call = "string \<times> val list \<times> (string \<times> val) list"

record world =
  exports :: "string \<Rightarrow> string \<Rightarrow> val option"
  builtins :: "string \<Rightarrow> val option"
  getattr :: "val \<Rightarrow> string \<Rightarrow> val option"
  call_ext :: "string \<Rightarrow> val list \<Rightarrow> (string \<times> val) list \<Rightarrow> error + val"

type_synonym env = "string \<Rightarrow> val option"

text \<open>
  Python evaluates the callee, then the positional arguments left to right, then the keyword
  values left to right, and then makes the call. The calls that reach the outside are logged
  in the order they are made.
\<close>

function (sequential) eval_expr :: "world \<Rightarrow> env \<Rightarrow> expr \<Rightarrow> ext_call list \<Rightarrow> error + (val \<times> ext_call list)"
  and eval_exprs :: "world \<Rightarrow> env \<Rightarrow> expr list \<Rightarrow> ext_call list \<Rightarrow> error + (val list \<times> ext_call list)"
  and eval_keywords :: "world \<Rightarrow> env \<Rightarrow> (string \<times> expr) list \<Rightarrow> ext_call list
        \<Rightarrow> error + ((string \<times> val) list \<times> ext_call list)"
where
  "eval_expr w env (Str s) log = Inr (VStr s, log)"
| "eval_expr w env (Name x) log =
     (case env x of
        Some v \<Rightarrow> Inr (v, log)
      | None \<Rightarrow> (case builtins w x of Some v \<Rightarrow> Inr (v, log) | None \<Rightarrow> Inl (NameError x)))"
| "eval_expr w env (ListE es) log =
     (case eval_exprs w env es log of
        Inl e \<Rightarrow> Inl e
      | Inr (vs, log') \<Rightarrow> Inr (VList vs, log'))"
| "eval_expr w env (Attribute e a) log =
     (case eval_expr w env e log of
        Inl err \<Rightarrow> Inl err
      | Inr (v, log') \<Rightarrow>
          (case getattr w v a of Some u \<Rightarrow> Inr (u, log') | None \<Rightarrow> Inl (AttributeError a)))"
| "eval_expr w env (Call f args ks) log =
     (case eval_expr w env f log of
        Inl err \<Rightarrow> Inl err
      | Inr (fv, log1) \<Rightarrow>
          (case eval_exprs w env args log1 of
             Inl err \<Rightarrow> Inl err
           | Inr (vs, log2) \<Rightarrow>
               (case eval_keywords w env ks log2 of
                  Inl err \<Rightarrow> Inl err
                | Inr (kvs, log3) \<Rightarrow>
                    (case fv of
                       VExt n \<Rightarrow>
                         (case call_ext w n vs kvs of
                            Inl err \<Rightarrow> Inl err
                          | Inr r \<Rightarrow> Inr (r, log3 @ [(n, vs, kvs)]))
                     | _ \<Rightarrow> Inl NotCallable))))"
| "eval_exprs w env [] log = Inr ([], log)"
| "eval_exprs w env (e # es) log =
     (case eval_expr w env e log of
        Inl err \<Rightarrow> Inl err
      | Inr (v, log1) \<Rightarrow>
          (case eval_exprs w env es log1 of
             Inl err \<Rightarrow> Inl err
           | Inr (vs, log2) \<Rightarrow> Inr (v # vs, log2)))"
| "eval_keywords w env [] log = Inr ([], log)"
| "eval_keywords w env ((k, e) # ks) log =
     (case eval_expr w env e log of
        Inl err \<Rightarrow> Inl err
      | Inr (v, log1) \<Rightarrow>
          (case eval_keywords w env ks log1 of
             Inl err \<Rightarrow> Inl err
           | Inr (kvs, log2) \<Rightarrow> Inr ((k, v) # kvs, log2)))"
  by pat_completeness auto
termination
  by (relation "measure (\<lambda>x. case x of
        Inl (w, env, e, log) \<Rightarrow> size e
      | Inr (Inl (w, env, es, log)) \<Rightarrow> size_list size es
      | Inr (Inr (w, env, ks, log)) \<Rightarrow> size_list (size_prod (\<lambda>x. 0) size) ks)") auto

text \<open>\<^verbatim>\<open>from m import a, b\<close> binds each name to what the module exports under it.\<close>

fun import_from :: "world \<Rightarrow> string \<Rightarrow> string list \<Rightarrow> env \<Rightarrow> error + env" where
  "import_from w m [] env = Inr env"
| "import_from w m (n # ns) env =
     (case exports w m n of
        None \<Rightarrow> Inl (ImportError m n)
      | Some v \<Rightarrow> import_from w m ns (env(n \<mapsto> v)))"

text \<open>
  The statements a manifest of this shape is made of are run; any other statement stops the
  run with \<open>Unsupported\<close>, so that a successful run never passed through one.
\<close>

fun exec_stmt :: "world \<Rightarrow> stmt \<Rightarrow> env \<times> ext_call list \<Rightarrow> error + (env \<times> ext_call list)" where
  "exec_stmt w (ImportFrom m ns) (env, log) =
     (case import_from w m ns env of Inl err \<Rightarrow> Inl err | Inr env' \<Rightarrow> Inr (env', log))"
| "exec_stmt w (Expr e) (env, log) =
     (case eval_expr w env e log of Inl err \<Rightarrow> Inl err | Inr (v, log') \<Rightarrow> Inr (env, log'))"
| "exec_stmt w (Assign (Name x) e) (env, log) =
     (case eval_expr w env e log of
        Inl err \<Rightarrow> Inl err
      | Inr (v, log') \<Rightarrow> Inr (env(x \<mapsto> v), log'))"
| "exec_stmt w s (env, log) = Inl (Unsupported (kind_of s))"

fun exec_stmts :: "world \<Rightarrow> stmt list \<Rightarrow> env \<times> ext_call list \<Rightarrow> error + (env \<times> ext_call list)" where
  "exec_stmts w [] st = Inr st"
| "exec_stmts w (s # ss) st =
     (case exec_stmt w s st of Inl err \<Rightarrow> Inl err | Inr st' \<Rightarrow> exec_stmts w ss st')"

text \<open>A run of the module: from an empty namespace, returning the external calls made.\<close>

definition run_module :: "world \<Rightarrow> stmt list \<Rightarrow> error + ext_call list" where
  "run_module w body =
     (case exec_stmts w body (Map.empty, []) of Inl err \<Rightarrow> Inl err | Inr (env, log) \<Rightarrow> Inr log)"

text \<open>
  A world to run the module in: setuptools exports its two callables, package discovery finds
  the one package \<^verbatim>\<open>patchclamp\<close>, and \<^verbatim>\<open>setup\<close> returns.
\<close>

definition example_world :: world where
  "example_world =
     \<lparr>exports = (\<lambda>m n. if m = ''setuptools'' \<and> n \<in> {''find_packages'', ''setup''}
                         then Some (VExt n) else None),
      builtins = (\<lambda>x. None),
      getattr = (\<lambda>v a. None),
      call_ext = (\<lambda>n vs kvs. if n = ''find_packages'' then Inr (VList [VStr ''patchclamp''])
                              else if n = ''setup'' then Inr VNone
                              else Inl (Raised ''TypeError''))\<rparr>"

text \<open>
  The same world when the manifest is run with no command on the command line:
  \<^verbatim>\<open>setup\<close> then leaves by raising \<^verbatim>\<open>SystemExit\<close>.
\<close>

definition no_command_world :: world where
  "no_command_world =
     \<lparr>exports = (\<lambda>m n. if m = ''setuptools'' \<and> n \<in> {''find_packages'', ''setup''}
                         then Some (VExt n) else None),
      builtins = (\<lambda>x. None),
      getattr = (\<lambda>v a. None),
      call_ext = (\<lambda>n vs kvs. if n = ''find_packages'' then Inr (VList [VStr ''patchclamp''])
                              else Inl (Raised ''SystemExit''))\<rparr>"

subsection \<open>Requirement strings\<close>

text \<open>
  The characters with which a requirement string goes beyond a bare distribution name: the
  comparison operators of a version specifier, the brackets of extras and of a parenthesised
  specifier, the semicolon of an environment marker, the at-sign of a direct reference, and
  the separators between them.
\<close>

definition specifier_chars :: string where
  "specifier_chars = ''=<>~![]();@, ''"

definition bare_name :: "string \<Rightarrow> bool" where
  "bare_name d = (d \<noteq> [] \<and> (\<forall>c \<in> set d. c \<notin> set specifier_chars))"

section \<open>Properties of the manifest\<close>

subsection \<open>Evaluating the readers on the module\<close>

lemma setup_call_unique:
  "calls_of ''setup'' setup_py =
     [Call (Name ''setup'') []
        [(''name'', Str ''patchclamp''),
         (''version'', Str ''0.1''),
         (''author'', Str ''Eamon Byrne''),
         (''packages'', Call (Name ''find_packages'') [] []),
         (''install_requires'',
            ListE [Str ''numpy'', Str ''pandas'', Str ''scipy'', Str ''pyabf'', Str ''glob'',
                   Str ''seaborn'', Str ''matplotlib''])]]"
  by (simp add: setup_py_def)

lemma setup_keywords_value:
  "setup_keywords =
     [(''name'', Str ''patchclamp''),
      (''version'', Str ''0.1''),
      (''author'', Str ''Eamon Byrne''),
      (''packages'', Call (Name ''find_packages'') [] []),
      (''install_requires'',
         ListE [Str ''numpy'', Str ''pandas'', Str ''scipy'', Str ''pyabf'', Str ''glob'',
                Str ''seaborn'', Str ''matplotlib''])]"
  by (simp add: setup_keywords_def setup_call_unique)

lemma install_requires_value:
  "install_requires = [''numpy'', ''pandas'', ''scipy'', ''pyabf'', ''glob'', ''seaborn'', ''matplotlib'']"
  by (simp add: install_requires_def setup_keyword_def setup_keywords_value)

lemma module_stmts_flat: "module_stmts setup_py = setup_py"
  by (simp add: module_stmts_def setup_py_def)

lemma module_kinds: "map kind_of (module_stmts setup_py) = [KImportFrom, KImportFrom, KExpr]"
  by (simp add: module_stmts_def setup_py_def)

lemma module_calls:
  "map callee (filter is_Call (module_exprs setup_py)) =
     [Some (Name ''setup''), Some (Name ''find_packages'')]"
  by (simp add: module_exprs_def module_stmts_def setup_py_def)

lemma module_attributes: "filter is_Attribute (module_exprs setup_py) = []"
  by (simp add: module_exprs_def module_stmts_def setup_py_def)

subsection \<open>The dependency list\<close>

text \<open>
  Claim C1: the \<^verbatim>\<open>install_requires\<close> argument declares exactly six runtime dependencies
  (numpy, pandas, scipy, pyabf, seaborn, matplotlib) and no other entries. The list of the
  source does not: between \<^verbatim>\<open>'pyabf'\<close> and \<^verbatim>\<open>'seaborn'\<close> it holds a seventh entry,
  \<^verbatim>\<open>'glob'\<close>, the name of a module of Python's standard library and not of a distribution
  that can be installed. What the list holds is evaluated here.
\<close>

theorem install_requires_lists_glob:
  "\<not> (length install_requires = 6 \<and> set install_requires = {''numpy'', ''pandas'', ''scipy'', ''pyabf'', ''seaborn'', ''matplotlib''})
   \<and> length install_requires = 7
   \<and> ''glob'' \<in> set install_requires
   \<and> ''glob'' \<notin> {''numpy'', ''pandas'', ''scipy'', ''pyabf'', ''seaborn'', ''matplotlib''}"
  by (simp add: install_requires_value)

text \<open>
  Claim C8: the \<^verbatim>\<open>install_requires\<close> list contains the literal entry \<^verbatim>\<open>'glob'\<close>, which
  is none of the six libraries the specification describes, so the list has exactly seven
  entries, in the fixed order numpy, pandas, scipy, pyabf, glob, seaborn, matplotlib.
\<close>

theorem install_requires_order:
  "install_requires = [''numpy'', ''pandas'', ''scipy'', ''pyabf'', ''glob'', ''seaborn'', ''matplotlib'']
   \<and> length install_requires = 7
   \<and> install_requires ! 4 = ''glob''
   \<and> ''glob'' \<notin> {''numpy'', ''pandas'', ''scipy'', ''pyabf'', ''seaborn'', ''matplotlib''}"
  by (simp add: install_requires_value)

text \<open>
  Claim C9: no dependency carries a version constraint: every entry of the
  \<^verbatim>\<open>install_requires\<close> list is a bare distribution name, with no version specifier
  (\<^verbatim>\<open>==\<close>, \<^verbatim>\<open>>=\<close>, \<^verbatim>\<open><\<close>, \<^verbatim>\<open>~=\<close>) and no extras marker.
\<close>

theorem install_requires_bare:
  "\<forall>d \<in> set install_requires. bare_name d"
  by (simp add: install_requires_value bare_name_def specifier_chars_def)

theorem install_requires_bare_witness:
  "''numpy'' \<in> set install_requires \<and> bare_name ''numpy''"
proof -
  have m: "''numpy'' \<in> set install_requires"
    by (simp add: install_requires_value)
  from install_requires_bare m have "bare_name ''numpy''" by (rule bspec)
  with m show ?thesis by simp
qed

subsection \<open>The metadata of the call\<close>

text \<open>
  Claim C2: the \<^verbatim>\<open>setup()\<close> call declares the distribution name to be exactly the string
  \<^verbatim>\<open>'patchclamp'\<close> and the version to be exactly the string \<^verbatim>\<open>'0.1'\<close>.
\<close>

theorem setup_name_version:
  "setup_keyword ''name'' = Some (Str ''patchclamp'')
   \<and> setup_keyword ''version'' = Some (Str ''0.1'')"
  by (simp add: setup_keyword_def setup_keywords_value)

text \<open>
  Claim C5: the packaging declaration consists of exactly the metadata the specification
  enumerates: the module calls \<^verbatim>\<open>setup\<close> once, with no positional argument, the keyword
  arguments of the call are exactly name, version, author, packages and install_requires,
  each given once, and the declared author is the string \<^verbatim>\<open>'Eamon Byrne'\<close>.
\<close>

theorem setup_keyword_names:
  "length (calls_of ''setup'' setup_py) = 1
   \<and> concat (map positional (calls_of ''setup'' setup_py)) = []
   \<and> map fst setup_keywords =
       [''name'', ''version'', ''author'', ''packages'', ''install_requires'']
   \<and> set (map fst setup_keywords) =
       {''name'', ''version'', ''author'', ''packages'', ''install_requires''}
   \<and> distinct (map fst setup_keywords)
   \<and> setup_keyword ''author'' = Some (Str ''Eamon Byrne'')"
  by (auto simp add: setup_keyword_def setup_keywords_value setup_call_unique)

text \<open>
  Claim C4: no command-line interface is defined: the one \<^verbatim>\<open>setup()\<close> call of the module
  passes no \<^verbatim>\<open>entry_points\<close>, \<^verbatim>\<open>scripts\<close> or \<^verbatim>\<open>console_scripts\<close> argument, by keyword or
  by position, none of these names occurs as a string literal anywhere in the module, and
  the module holds nothing besides its two imports and that call.
\<close>

theorem no_command_line_interface:
  "length (calls_of ''setup'' setup_py) = 1
   \<and> concat (map positional (calls_of ''setup'' setup_py)) = []
   \<and> set (map fst setup_keywords) \<inter> {''entry_points'', ''scripts'', ''console_scripts''} = {}
   \<and> set (module_exprs setup_py)
       \<inter> {Str ''entry_points'', Str ''scripts'', Str ''console_scripts''} = {}
   \<and> map kind_of (module_stmts setup_py) = [KImportFrom, KImportFrom, KExpr]"
  by (simp add: setup_keywords_value setup_call_unique module_kinds)
     (simp add: module_exprs_def module_stmts_def setup_py_def)

subsection \<open>The shape of the module\<close>

text \<open>
  Claim C3: the source contains no implementation: the module defines no function and no
  class, and holds no loop, branch or assignment, nested or not; its only top-level
  statements are two imports from setuptools, of \<^verbatim>\<open>find_packages\<close> and of \<^verbatim>\<open>setup\<close>, and a
  single expression statement, the \<^verbatim>\<open>setup()\<close> call.
\<close>

theorem module_is_imports_and_setup_call:
  "map kind_of (module_stmts setup_py) = [KImportFrom, KImportFrom, KExpr]
   \<and> module_stmts setup_py = setup_py
   \<and> take 2 setup_py =
       [ImportFrom ''setuptools'' [''find_packages''], ImportFrom ''setuptools'' [''setup'']]
   \<and> concat (map stmt_exprs setup_py) = calls_of ''setup'' setup_py
   \<and> length (calls_of ''setup'' setup_py) = 1"
  by (simp add: module_kinds module_stmts_flat setup_call_unique) (simp add: setup_py_def)

text \<open>
  Claim C7: no source pattern requiring re-architecture appears: the module contains no class
  definition (hence no inheritance), no assignment and no \<^verbatim>\<open>global\<close> declaration (hence no
  mutable global state), no attribute access (every call is of a plain imported name, so
  nothing is dispatched on an object), and no coroutine definition.
\<close>

theorem no_rearchitecture_patterns:
  "KClassDef \<notin> set (map kind_of (module_stmts setup_py))
   \<and> KAssign \<notin> set (map kind_of (module_stmts setup_py))
   \<and> KGlobal \<notin> set (map kind_of (module_stmts setup_py))
   \<and> KAsyncFunctionDef \<notin> set (map kind_of (module_stmts setup_py))
   \<and> filter is_Attribute (module_exprs setup_py) = []
   \<and> map callee (filter is_Call (module_exprs setup_py)) =
       [Some (Name ''setup''), Some (Name ''find_packages'')]"
  by (simp add: module_kinds module_attributes module_calls)

subsection \<open>Running the manifest\<close>

text \<open>
  Claim C6, as stated: no operations exist that could fail, retry, or surface errors: the
  module contains no raise statement, no try/except handler, no retry loop, and no
  conditional branch, so evaluating the manifest reaches no error path. The last part
  fails: run with no command, \<^verbatim>\<open>setup\<close> raises \<^verbatim>\<open>SystemExit\<close>, nothing in the module
  handles it, and the run ends with that error.
\<close>

theorem run_surfaces_setup_error_counterexample:
  "run_module no_command_world setup_py = Inl (Raised ''SystemExit'')"
  by (simp add: run_module_def setup_py_def no_command_world_def)

text \<open>
  Claim C6, amended: the module contains no raise statement, no try/except handler, no loop
  and no conditional branch, and it neither handles nor retries anything. A run rests on four
  operations outside the file, in this order: the import of \<^verbatim>\<open>find_packages\<close>, the import
  of \<^verbatim>\<open>setup\<close>, the call of \<^verbatim>\<open>find_packages\<close> and the call of \<^verbatim>\<open>setup\<close>. The run ends
  in an error exactly when one of the four fails, with the error of the first that fails,
  unchanged; when all four succeed it returns, having made each of the two calls once.
\<close>

theorem run_fails_only_outside:
  "KRaise \<notin> set (map kind_of (module_stmts setup_py))
   \<and> KTry \<notin> set (map kind_of (module_stmts setup_py))
   \<and> KWhile \<notin> set (map kind_of (module_stmts setup_py))
   \<and> KFor \<notin> set (map kind_of (module_stmts setup_py))
   \<and> KIf \<notin> set (map kind_of (module_stmts setup_py))
   \<and> run_module w setup_py =
       (case exports w ''setuptools'' ''find_packages'' of
          None \<Rightarrow> Inl (ImportError ''setuptools'' ''find_packages'')
        | Some f \<Rightarrow>
           (case exports w ''setuptools'' ''setup'' of
              None \<Rightarrow> Inl (ImportError ''setuptools'' ''setup'')
            | Some s \<Rightarrow>
               (case f of
                  VExt fp \<Rightarrow>
                    (case call_ext w fp [] [] of
                       Inl err \<Rightarrow> Inl err
                     | Inr pk \<Rightarrow>
                        (case s of
                           VExt st \<Rightarrow>
                             (case call_ext w st []
                                [(''name'', VStr ''patchclamp''),
                                 (''version'', VStr ''0.1''),
                                 (''author'', VStr ''Eamon Byrne''),
                                 (''packages'', pk),
                                 (''install_requires'',
                                    VList [VStr ''numpy'', VStr ''pandas'', VStr ''scipy'', VStr ''pyabf'',
                                           VStr ''glob'', VStr ''seaborn'', VStr ''matplotlib''])] of
                                Inl err \<Rightarrow> Inl err
                              | Inr r \<Rightarrow>
                                 Inr [(fp, [], []),
                                      (st, [],
                                       [(''name'', VStr ''patchclamp''),
                                        (''version'', VStr ''0.1''),
                                        (''author'', VStr ''Eamon Byrne''),
                                        (''packages'', pk),
                                        (''install_requires'',
                                           VList [VStr ''numpy'', VStr ''pandas'', VStr ''scipy'', VStr ''pyabf'',
                                                  VStr ''glob'', VStr ''seaborn'', VStr ''matplotlib''])])])
                         | _ \<Rightarrow> Inl NotCallable))
                | _ \<Rightarrow> Inl NotCallable)))"
  by (simp add: module_kinds)
     (simp add: run_module_def setup_py_def split: option.split val.split sum.split)

text \<open>
  Claim C10: no package names are hard-coded in the manifest: the \<^verbatim>\<open>packages\<close> argument of
  the \<^verbatim>\<open>setup()\<close> call is the call \<^verbatim>\<open>find_packages()\<close> with no arguments, not a list of
  names, so the packages that reach \<^verbatim>\<open>setup\<close> in a run are whatever discovery returned.
\<close>

theorem packages_from_discovery:
  assumes "exports w ''setuptools'' ''find_packages'' = Some (VExt fp)"
    and "exports w ''setuptools'' ''setup'' = Some (VExt st)"
    and "call_ext w fp [] [] = Inr pk"
    and "call_ext w st []
           [(''name'', VStr ''patchclamp''),
          (''version'', VStr ''0.1''),
          (''author'', VStr ''Eamon Byrne''),
          (''packages'', pk),
          (''install_requires'',
             VList [VStr ''numpy'', VStr ''pandas'', VStr ''scipy'', VStr ''pyabf'',
                    VStr ''glob'', VStr ''seaborn'', VStr ''matplotlib''])] = Inr r"
  shows "setup_keyword ''packages'' = Some (Call (Name ''find_packages'') [] [])
   \<and> str_list (Call (Name ''find_packages'') [] []) = None
   \<and> run_module w setup_py =
       Inr [(fp, [], []),
            (st, [],
           [(''name'', VStr ''patchclamp''),
          (''version'', VStr ''0.1''),
          (''author'', VStr ''Eamon Byrne''),
          (''packages'', pk),
          (''install_requires'',
             VList [VStr ''numpy'', VStr ''pandas'', VStr ''scipy'', VStr ''pyabf'',
                    VStr ''glob'', VStr ''seaborn'', VStr ''matplotlib''])])]"
  using assms
  by (simp add: setup_keyword_def setup_keywords_value) (simp add: run_module_def setup_py_def)

theorem packages_from_discovery_witness:
  "exports example_world ''setuptools'' ''find_packages'' = Some (VExt ''find_packages'')
   \<and> exports example_world ''setuptools'' ''setup'' = Some (VExt ''setup'')
   \<and> call_ext example_world ''find_packages'' [] [] = Inr (VList [VStr ''patchclamp''])
   \<and> call_ext example_world ''setup'' []
           [(''name'', VStr ''patchclamp''),
          (''version'', VStr ''0.1''),
          (''author'', VStr ''Eamon Byrne''),
          (''packages'', VList [VStr ''patchclamp'']),
          (''install_requires'',
             VList [VStr ''numpy'', VStr ''pandas'', VStr ''scipy'', VStr ''pyabf'',
                    VStr ''glob'', VStr ''seaborn'', VStr ''matplotlib''])] = Inr VNone
   \<and> run_module example_world setup_py =
       Inr [(''find_packages'', [], []),
            (''setup'', [],
           [(''name'', VStr ''patchclamp''),
          (''version'', VStr ''0.1''),
          (''author'', VStr ''Eamon Byrne''),
          (''packages'', VList [VStr ''patchclamp'']),
          (''install_requires'',
             VList [VStr ''numpy'', VStr ''pandas'', VStr ''scipy'', VStr ''pyabf'',
                    VStr ''glob'', VStr ''seaborn'', VStr ''matplotlib''])])]"
proof -
  have h1: "exports example_world ''setuptools'' ''find_packages'' = Some (VExt ''find_packages'')"
    by (simp add: example_world_def)
  have h2: "exports example_world ''setuptools'' ''setup'' = Some (VExt ''setup'')"
    by (simp add: example_world_def)
  have h3: "call_ext example_world ''find_packages'' [] [] = Inr (VList [VStr ''patchclamp''])"
    by (simp add: example_world_def)
  have h4: "call_ext example_world ''setup'' []
           [(''name'', VStr ''patchclamp''),
          (''version'', VStr ''0.1''),
          (''author'', VStr ''Eamon Byrne''),
          (''packages'', VList [VStr ''patchclamp'']),
          (''install_requires'',
             VList [VStr ''numpy'', VStr ''pandas'', VStr ''scipy'', VStr ''pyabf'',
                    VStr ''glob'', VStr ''seaborn'', VStr ''matplotlib''])] = Inr VNone"
    by (simp add: example_world_def)
  from packages_from_discovery [OF h1 h2 h3 h4] h1 h2 h3 h4 show ?thesis by simp
qed

end
